theory Spec2Isabelle
  imports Complex_Main
begin

section \<open>Order service: rounding and totals\<close>

text \<open>
  JavaScript numbers are modelled as rationals with exact arithmetic. The model therefore
  computes what the source computes wherever every intermediate value is a double that is
  represented exactly (dyadic fractions such as 0.125, 12.5, 2.5, and small integers); the
  concrete evaluations below only use such inputs. The rounding of IEEE arithmetic itself is
  not modelled.
\<close>

text \<open>\<^verbatim>\<open>Math.round\<close>: the nearest integer, ties towards plus infinity.\<close>

definition Math_round :: "rat \<Rightarrow> int" where
  "Math_round x = \<lfloor>x + 1 / 2\<rfloor>"

text \<open>The remainder operator \<^verbatim>\<open>%\<close> of JavaScript truncates: the result has the sign of the dividend.\<close>

definition js_rem :: "int \<Rightarrow> int \<Rightarrow> int" where
  "js_rem a b = sgn a * (\<bar>a\<bar> mod \<bar>b\<bar>)"

text \<open>\<^verbatim>\<open>utils/rounding.js\<close>, \<^verbatim>\<open>bankersRound(value, decimals = 2)\<close>.\<close>

definition bankersRound :: "rat \<Rightarrow> nat \<Rightarrow> rat" where
  "bankersRound val decimals =
     (let factor = 10 ^ decimals;
          num = val * factor;
          rounded = Math_round num;
          remainder = \<bar>num - of_int rounded\<bar>
      in if remainder = 1 / 2
         then of_int (if js_rem rounded 2 = 0 then rounded
                      else rounded + (if num > 0 then 1 else - 1)) / factor
         else of_int rounded / factor)"

text \<open>A priced item as \<^verbatim>\<open>createOrderSaga\<close> builds it from the catalog answers.\<close>

record priced_item =
  product_id :: int
  quantity :: int
  price :: rat
  sku :: string
  product_name :: string

record totals =
  subtotal :: rat
  taxRate :: rat
  taxAmount :: rat
  shippingCost :: rat
  total :: rat

text \<open>
  \<^verbatim>\<open>services/totalService.js\<close>, \<^verbatim>\<open>calculateOrderTotals(pricedItems, options)\<close>. The two options
  are optional in the source: a missing tax rate defaults to 0.05, a missing shipping cost to 0.
  \<^verbatim>\<open>reduce\<close> is a left fold from 0.
\<close>

definition calculateOrderTotals :: "priced_item list \<Rightarrow> rat option \<Rightarrow> rat option \<Rightarrow> totals" where
  "calculateOrderTotals pricedItems optTaxRate optShippingCost =
     (let taxRate' = (case optTaxRate of None \<Rightarrow> 5 / 100 | Some r \<Rightarrow> r);
          shippingCost' = (case optShippingCost of None \<Rightarrow> 0 | Some s \<Rightarrow> s);
          subtotal' = foldl (\<lambda>sum item. sum + price item * of_int (quantity item)) 0 pricedItems;
          taxAmount' = subtotal' * taxRate';
          total' = subtotal' + taxAmount' + shippingCost'
      in \<lparr> subtotal = bankersRound subtotal' 2,
           taxRate = taxRate',
           taxAmount = bankersRound taxAmount' 2,
           shippingCost = bankersRound shippingCost' 2,
           total = bankersRound total' 2 \<rparr>)"

text \<open>\<^verbatim>\<open>calculateShippingCost(items)\<close>: base 10.00 plus 2.00 per unit.\<close>

definition calculateShippingCost :: "priced_item list \<Rightarrow> rat" where
  "calculateShippingCost its =
     (let baseShipping = 10;
          perItemShipping = 2;
          totalItems = foldl (\<lambda>sum item. sum + quantity item) 0 its;
          shippingCost' = baseShipping + of_int totalItems * perItemShipping
      in bankersRound shippingCost' 2)"

text \<open>Rounding to the nearest multiple of \<open>10^-2\<close>, ties to the even multiple: the reference.\<close>

definition half_even_2 :: "rat \<Rightarrow> rat" where
  "half_even_2 x =
     (let n = x * 100; f = \<lfloor>n\<rfloor>; d = n - of_int f
      in of_int (if d < 1 / 2 then f else if d > 1 / 2 then f + 1
                 else if even f then f else f + 1) / 100)"

section \<open>Inventory service: data\<close>

text \<open>
  The tables of the inventory database, as the statements of the service read and write them.
  The column \<^verbatim>\<open>updated_at\<close> and the time stamps \<^verbatim>\<open>reserved_at\<close>, \<^verbatim>\<open>created_at\<close> are left out: no
  statement of the service reads them. The free text of a movement's note is kept as its
  template.
\<close>

datatype reservation_status = ACTIVE | CONFIRMED | RELEASED | EXPIRED

datatype movement_type = RESERVE | RELEASE | SHIP

datatype movement_note =
    Reserved_for_Order | Released_for_Order | Shipped_for_Order | Expired_auto_released

record inventory_row =
  inventory_id :: nat
  inv_product_id :: int
  inv_warehouse :: string
  on_hand :: int
  reserved :: int

record reservation =
  reservation_id :: nat
  res_order_id :: int
  res_product_id :: int
  res_sku :: "string option"
  res_warehouse :: string
  res_quantity :: int
  idempotency_key :: string
  expires_at :: int
  res_status :: reservation_status

record movement =
  mov_product_id :: int
  mov_sku :: "string option"
  mov_warehouse :: string
  mov_type :: movement_type
  mov_quantity :: int
  reference_order_id :: int
  mov_notes :: movement_note

record inventory_db =
  inventory :: "inventory_row list"
  reservations :: "reservation list"
  movements :: "movement list"
  next_reservation_id :: nat

text \<open>
  Request bodies. A field that may be missing in the JSON is an option; the header names are
  those Node delivers (lower case).
\<close>

record reserve_item =
  item_sku :: "string option"
  item_product_id :: "int option"
  item_qty :: "int option"

record reserve_request =
  headers :: "(string \<times> string) list"
  body_items :: "reserve_item list"
  body_order_id :: "int option"
  body_idempotency_key :: "string option"

record ship_item =
  ship_sku :: "string option"
  ship_product_id :: "int option"
  ship_qty :: "int option"
  ship_warehouse :: "string option"

datatype allocation_strategy = SINGLE_WAREHOUSE | SPLIT

datatype reserve_status = RESERVED | PARTIAL

text \<open>
  The items of a reserve response: a reserved item (sku, product, warehouse, qty reserved,
  qty available, reservation id), a partial item (sku, product, warehouse if any, qty
  requested, qty available; \<^verbatim>\<open>action_required\<close> is always \<^verbatim>\<open>BACKORDER_OR_REDUCE\<close>), and an item of
  an idempotent replay (sku, product, warehouse, qty reserved, reservation id).
\<close>

datatype response_item =
    Reserved_item "string option" int string int int nat
  | Partial_item "string option" int "string option" int int
  | Existing_item "string option" int string int nat

text \<open>The errors thrown inside the transaction of the reserve and ship handlers.\<close>

datatype engine_error =
    Invalid_qty
  | Invalid_product_id
  | ReferenceError_reserved
  | Duplicate_without_reservations int
  | Invalid_ship_item

datatype validation_error = Items_required | Order_id_required | Idempotency_key_required

datatype engine_body =
    Invalid_request validation_error
  | Error_body engine_error "int option"
  | Idempotent_body int "response_item list" int
  | Duplicate_body int "reservation_status list"
  | Reserve_body reserve_status int allocation_strategy "response_item list" int
  | Confirmed_body int nat
  | Released_body int nat
  | Shipped_body int
  | Processed_body nat "nat list"

type_synonym engine_response = "nat \<times> engine_body"

text \<open>The outcome of one pass of a loop body: go on, throw, or answer the request at once.\<close>

datatype 'a step = Continue 'a | Throw engine_error | Return_response engine_response

record loop_state =
  ls_db :: inventory_db
  reservedItems :: "response_item list"
  partialItems :: "response_item list"
  hasPartial :: bool

section \<open>Inventory service: helpers\<close>

text \<open>Truthiness of JavaScript: a missing value, the number 0 and the empty string are falsy.\<close>

definition truthy_int :: "int option \<Rightarrow> bool" where
  "truthy_int v = (case v of None \<Rightarrow> False | Some n \<Rightarrow> n \<noteq> 0)"

definition truthy_str :: "string option \<Rightarrow> bool" where
  "truthy_str v = (case v of None \<Rightarrow> False | Some s \<Rightarrow> s \<noteq> [])"

text \<open>\<^verbatim>\<open>a || b\<close> on optional strings, and \<^verbatim>\<open>sku || null\<close>.\<close>

definition or_else :: "string option \<Rightarrow> string option \<Rightarrow> string option" where
  "or_else a b = (if truthy_str a then a else b)"

definition sku_or_null :: "string option \<Rightarrow> string option" where
  "sku_or_null s = or_else s None"

text \<open>The elements of a list in the order of their first occurrence, as \<^verbatim>\<open>[...new Set(xs)]\<close>.\<close>

definition uniq :: "'a list \<Rightarrow> 'a list" where
  "uniq xs = rev (remdups (rev xs))"

definition RESERVATION_TTL_MINUTES :: int where
  "RESERVATION_TTL_MINUTES = 15"

definition available :: "inventory_row \<Rightarrow> int" where
  "available r = on_hand r - reserved r"

text \<open>
  \<^verbatim>\<open>findAvailableWarehouses(conn, product_id, qty)\<close>: the rows of the product with available
  stock, by descending availability (rows of equal availability in table order). The
  parameter \<^verbatim>\<open>qty\<close> is not used by the source. A missing product id matches no row.
\<close>

definition findAvailableWarehouses :: "inventory_db \<Rightarrow> int option \<Rightarrow> inventory_row list" where
  "findAvailableWarehouses db pid =
     sort_key (\<lambda>r. - available r)
       (filter (\<lambda>r. Some (inv_product_id r) = pid \<and> available r > 0) (inventory db))"

text \<open>
  The map of \<^verbatim>\<open>findSingleWarehouseForOrder\<close>: warehouses in the order of their first insertion,
  each with its map from product to row.
\<close>

type_synonym warehouse_map = "(string \<times> (int option \<rightharpoonup> inventory_row)) list"

fun wm_set :: "warehouse_map \<Rightarrow> string \<Rightarrow> int option \<Rightarrow> inventory_row \<Rightarrow> warehouse_map" where
  "wm_set [] w pid row = [(w, [pid \<mapsto> row])]"
| "wm_set ((w', pm) # rest) w pid row =
     (if w' = w then (w', pm(pid \<mapsto> row)) # rest else (w', pm) # wm_set rest w pid row)"

definition item_fits :: "(int option \<rightharpoonup> inventory_row) \<Rightarrow> reserve_item \<Rightarrow> bool" where
  "item_fits productMap item =
     (case productMap (item_product_id item) of
        None \<Rightarrow> False
      | Some inv_row \<Rightarrow>
          (case item_qty item of None \<Rightarrow> True | Some q \<Rightarrow> \<not> (available inv_row < q)))"

definition findSingleWarehouseForOrder :: "inventory_db \<Rightarrow> reserve_item list \<Rightarrow> string option" where
  "findSingleWarehouseForOrder db its =
     (let productIds = uniq (map item_product_id its);
          warehouseMap =
            foldl (\<lambda>wm productId.
                     foldl (\<lambda>wm' wh. wm_set wm' (inv_warehouse wh) productId wh) wm
                       (findAvailableWarehouses db productId))
              [] productIds
      in map_option fst (find (\<lambda>(warehouse, productMap). list_all (item_fits productMap) its)
                           warehouseMap))"

definition allocateWarehouseStrategy ::
  "inventory_db \<Rightarrow> reserve_item list \<Rightarrow> allocation_strategy \<times> string option" where
  "allocateWarehouseStrategy db its =
     (let singleWarehouse = findSingleWarehouseForOrder db its
      in if truthy_str singleWarehouse then (SINGLE_WAREHOUSE, singleWarehouse)
         else (SPLIT, None))"

text \<open>
  \<^verbatim>\<open>UPDATE inventory SET reserved = reserved + q WHERE inventory_id = id AND (on_hand - reserved) >= q\<close>:
  the number of affected rows and the new table.
\<close>

definition update_reserve :: "inventory_db \<Rightarrow> nat \<Rightarrow> int \<Rightarrow> nat \<times> inventory_db" where
  "update_reserve db inv_id q =
     (let hit = (\<lambda>r. inventory_id r = inv_id \<and> available r \<ge> q)
      in (length (filter hit (inventory db)),
          db\<lparr>inventory := map (\<lambda>r. if hit r then r\<lparr>reserved := reserved r + q\<rparr> else r)
                              (inventory db)\<rparr>))"

text \<open>
  \<^verbatim>\<open>INSERT INTO reservations ... VALUES (..., 'ACTIVE')\<close>. Modelled from the spec: the composite
  unique key of the table on (idempotency key, order identifier, product identifier); the
  schema is not part of the sources. A violation is the error \<^verbatim>\<open>ER_DUP_ENTRY\<close> (\<open>None\<close> here);
  otherwise the result is the new row's id and the new database.
\<close>

definition insert_reservation ::
  "inventory_db \<Rightarrow> int \<Rightarrow> int \<Rightarrow> string option \<Rightarrow> string \<Rightarrow> int \<Rightarrow> string \<Rightarrow> int
     \<Rightarrow> (nat \<times> inventory_db) option" where
  "insert_reservation db oid pid s wh q k expiresAt =
     (if list_ex (\<lambda>r. idempotency_key r = k \<and> res_order_id r = oid \<and> res_product_id r = pid)
           (reservations db)
      then None
      else Some (next_reservation_id db,
                 db\<lparr>reservations := reservations db @
                        [\<lparr>reservation_id = next_reservation_id db, res_order_id = oid,
                          res_product_id = pid, res_sku = s, res_warehouse = wh,
                          res_quantity = q, idempotency_key = k, expires_at = expiresAt,
                          res_status = ACTIVE\<rparr>],
                    next_reservation_id := Suc (next_reservation_id db)\<rparr>))"

definition insert_movement ::
  "inventory_db \<Rightarrow> int \<Rightarrow> string option \<Rightarrow> string \<Rightarrow> movement_type \<Rightarrow> int \<Rightarrow> int
     \<Rightarrow> movement_note \<Rightarrow> inventory_db" where
  "insert_movement db pid s wh ty q oid note =
     db\<lparr>movements := movements db @
           [\<lparr>mov_product_id = pid, mov_sku = s, mov_warehouse = wh, mov_type = ty,
             mov_quantity = q, reference_order_id = oid, mov_notes = note\<rparr>]\<rparr>"

text \<open>
  \<^verbatim>\<open>UPDATE inventory SET reserved = GREATEST(reserved - q, 0) WHERE product_id = p AND warehouse = w\<close>,
  used by release and by the reaper.
\<close>

definition release_stock :: "inventory_db \<Rightarrow> int \<Rightarrow> string \<Rightarrow> int \<Rightarrow> inventory_db" where
  "release_stock db pid wh q =
     db\<lparr>inventory := map (\<lambda>r. if inv_product_id r = pid \<and> inv_warehouse r = wh
                               then r\<lparr>reserved := max (reserved r - q) 0\<rparr> else r)
                        (inventory db)\<rparr>"

text \<open>The answer built from the reservations already stored under a key and an order.\<close>

definition existing_item :: "reservation \<Rightarrow> response_item" where
  "existing_item r =
     Existing_item (res_sku r) (res_product_id r) (res_warehouse r) (res_quantity r)
       (reservation_id r)"

definition replay_or_duplicate :: "int \<Rightarrow> reservation list \<Rightarrow> engine_response" where
  "replay_or_duplicate oid existingReservations =
     (let activeReservations = filter (\<lambda>r. res_status r = ACTIVE) existingReservations
      in case activeReservations of
           a # _ \<Rightarrow> (200, Idempotent_body oid (map existing_item activeReservations) (expires_at a))
         | [] \<Rightarrow> (409, Duplicate_body oid (uniq (map res_status existingReservations))))"

section \<open>Inventory service: the handlers\<close>

text \<open>
  Each handler runs one transaction on one connection; the model runs the statements in
  order on the database and returns the response with the committed database. A rollback
  returns the database the handler started from.
\<close>

definition select_warehouses ::
  "inventory_db \<Rightarrow> allocation_strategy \<Rightarrow> string option \<Rightarrow> int \<Rightarrow> int \<Rightarrow> inventory_row list" where
  "select_warehouses db strategy targetWarehouse pid q =
     (if strategy = SINGLE_WAREHOUSE \<and> truthy_str targetWarehouse
      then filter (\<lambda>r. inv_product_id r = pid \<and> Some (inv_warehouse r) = targetWarehouse
                         \<and> available r \<ge> q) (inventory db)
      else findAvailableWarehouses db (Some pid))"

text \<open>
  The inner loop \<^verbatim>\<open>for (const inv of warehouses)\<close> of the reserve handler, over the rows read
  at the start of the item's pass. The boolean is the variable \<^verbatim>\<open>reserved\<close>.
\<close>

fun try_warehouses ::
  "string \<Rightarrow> int \<Rightarrow> string option \<Rightarrow> int \<Rightarrow> int \<Rightarrow> int \<Rightarrow> inventory_row list \<Rightarrow> loop_state
     \<Rightarrow> (bool \<times> loop_state) step" where
  "try_warehouses k oid s pid q expiresAt [] st = Continue (False, st)"
| "try_warehouses k oid s pid q expiresAt (inv_row # rest) st =
     (if available inv_row \<ge> q
      then (case update_reserve (ls_db st) (inventory_id inv_row) q of
              (affectedRows, db1) \<Rightarrow>
                if affectedRows = 0 then try_warehouses k oid s pid q expiresAt rest st
                else (case insert_reservation db1 oid pid (sku_or_null s) (inv_warehouse inv_row)
                             q k expiresAt of
                        None \<Rightarrow>
                          (let allReservations =
                                 filter (\<lambda>r. idempotency_key r = k \<and> res_order_id r = oid)
                                   (reservations db1)
                           in if allReservations \<noteq> []
                              then Return_response (replay_or_duplicate oid allReservations)
                              else Throw (Duplicate_without_reservations pid))
                      | Some (reservationId, db2) \<Rightarrow>
                          Continue (True,
                            st\<lparr>ls_db := insert_movement db2 pid (sku_or_null s)
                                          (inv_warehouse inv_row) RESERVE q oid Reserved_for_Order,
                               reservedItems := reservedItems st @
                                 [Reserved_item (sku_or_null s) pid (inv_warehouse inv_row) q q
                                    reservationId]\<rparr>)))
      else try_warehouses k oid s pid q expiresAt rest
             (st\<lparr>partialItems := partialItems st @
                    [Partial_item (sku_or_null s) pid (Some (inv_warehouse inv_row)) q
                       (available inv_row)],
                 hasPartial := True\<rparr>))"

text \<open>
  One pass of the loop \<^verbatim>\<open>for (const item of items)\<close>. When an ACTIVE reservation of the
  product exists under the key and the order, the source pushes the existing reservation to
  \<^verbatim>\<open>reservedItems\<close> and then assigns \<^verbatim>\<open>reserved = true\<close>; the variable is declared by
  \<^verbatim>\<open>let reserved = false\<close> further down in the same block, so the assignment is in its temporal
  dead zone and throws a \<^verbatim>\<open>ReferenceError\<close>, which the handler's \<^verbatim>\<open>catch\<close> receives.
\<close>

definition reserve_one ::
  "string \<Rightarrow> int \<Rightarrow> allocation_strategy \<Rightarrow> string option \<Rightarrow> int \<Rightarrow> loop_state \<Rightarrow> reserve_item
     \<Rightarrow> loop_state step" where
  "reserve_one k oid strategy targetWarehouse expiresAt st item =
     (case item_qty item of
        None \<Rightarrow> Throw Invalid_qty
      | Some q \<Rightarrow>
          if q = 0 \<or> q \<le> 0 then Throw Invalid_qty
          else (case item_product_id item of
                  None \<Rightarrow> Throw Invalid_product_id
                | Some pid \<Rightarrow>
                    if pid = 0 then Throw Invalid_product_id
                    else (let warehouses =
                                select_warehouses (ls_db st) strategy targetWarehouse pid q
                          in if warehouses = []
                             then Continue
                                    (st\<lparr>partialItems := partialItems st @
                                          [Partial_item (sku_or_null (item_sku item)) pid None q 0],
                                        hasPartial := True\<rparr>)
                             else (let existingProductReservation =
                                         filter (\<lambda>r. idempotency_key r = k \<and> res_order_id r = oid
                                                      \<and> res_product_id r = pid \<and> res_status r = ACTIVE)
                                           (reservations (ls_db st))
                                   in if existingProductReservation \<noteq> []
                                      then Throw ReferenceError_reserved
                                      else (case try_warehouses k oid (item_sku item) pid q
                                                   expiresAt warehouses st of
                                              Continue (was_reserved, st') \<Rightarrow>
                                                Continue (if \<not> was_reserved \<and> warehouses \<noteq> []
                                                          then st'\<lparr>hasPartial := True\<rparr> else st')
                                            | Throw e \<Rightarrow> Throw e
                                            | Return_response r \<Rightarrow> Return_response r)))))"

fun reserve_items ::
  "string \<Rightarrow> int \<Rightarrow> allocation_strategy \<Rightarrow> string option \<Rightarrow> int \<Rightarrow> reserve_item list
     \<Rightarrow> loop_state \<Rightarrow> loop_state step" where
  "reserve_items k oid strategy targetWarehouse expiresAt [] st = Continue st"
| "reserve_items k oid strategy targetWarehouse expiresAt (item # rest) st =
     (case reserve_one k oid strategy targetWarehouse expiresAt st item of
        Continue st' \<Rightarrow> reserve_items k oid strategy targetWarehouse expiresAt rest st'
      | Throw e \<Rightarrow> Throw e
      | Return_response r \<Rightarrow> Return_response r)"

text \<open>
  The transaction of \<^verbatim>\<open>POST /v1/inventory/reserve\<close>, for a validated request. No error of the
  model carries the code \<^verbatim>\<open>ER_DUP_ENTRY\<close> to the handler's \<^verbatim>\<open>catch\<close> (the insert's own \<^verbatim>\<open>catch\<close>
  answers or throws a plain error), so the \<^verbatim>\<open>catch\<close> rolls back and answers 400 with the message.
\<close>

definition reserve_transaction ::
  "int \<Rightarrow> reserve_item list \<Rightarrow> int \<Rightarrow> string \<Rightarrow> inventory_db \<Rightarrow> engine_response \<times> inventory_db" where
  "reserve_transaction now its oid k db =
     (let existingReservations =
            filter (\<lambda>r. idempotency_key r = k \<and> res_order_id r = oid) (reservations db)
      in if existingReservations \<noteq> [] then (replay_or_duplicate oid existingReservations, db)
         else (case allocateWarehouseStrategy db its of
                 (strategy, targetWarehouse) \<Rightarrow>
                   (let expiresAt = now + RESERVATION_TTL_MINUTES * 60 * 1000
                    in case reserve_items k oid strategy targetWarehouse expiresAt its
                              \<lparr>ls_db = db, reservedItems = [], partialItems = [],
                               hasPartial = False\<rparr> of
                         Continue st \<Rightarrow>
                           ((200, Reserve_body (if hasPartial st then PARTIAL else RESERVED) oid
                                    strategy
                                    (if hasPartial st \<and> partialItems st \<noteq> []
                                     then reservedItems st @ partialItems st
                                     else reservedItems st)
                                    expiresAt),
                            ls_db st)
                       | Throw e \<Rightarrow> ((400, Error_body e (Some oid)), db)
                       | Return_response r \<Rightarrow> (r, db))))"

text \<open>The idempotency key of a reserve request: the header in three spellings, then the body.\<close>

definition request_idempotency_key :: "reserve_request \<Rightarrow> string option" where
  "request_idempotency_key req =
     or_else (map_of (headers req) ''idempotency-key'')
       (or_else (map_of (headers req) ''Idempotency-Key'')
          (or_else (map_of (headers req) ''IDEMPOTENCY-KEY'') (body_idempotency_key req)))"

text \<open>\<^verbatim>\<open>POST /v1/inventory/reserve\<close>; \<open>now\<close> is the clock, in milliseconds.\<close>

definition reserve :: "int \<Rightarrow> reserve_request \<Rightarrow> inventory_db \<Rightarrow> engine_response \<times> inventory_db" where
  "reserve now req db =
     (if body_items req = [] then ((400, Invalid_request Items_required), db)
      else (case body_order_id req of
              None \<Rightarrow> ((400, Invalid_request Order_id_required), db)
            | Some oid \<Rightarrow>
                if oid = 0 then ((400, Invalid_request Order_id_required), db)
                else (case request_idempotency_key req of
                        None \<Rightarrow> ((400, Invalid_request Idempotency_key_required), db)
                      | Some k \<Rightarrow>
                          if k = [] then ((400, Invalid_request Idempotency_key_required), db)
                          else reserve_transaction now (body_items req) oid k db)))"

text \<open>\<^verbatim>\<open>POST /v1/inventory/reserve/confirm\<close>.\<close>

definition confirm :: "int option \<Rightarrow> nat list \<Rightarrow> inventory_db \<Rightarrow> engine_response \<times> inventory_db" where
  "confirm order_id reservation_ids db =
     (case order_id of
        None \<Rightarrow> ((400, Invalid_request Order_id_required), db)
      | Some oid \<Rightarrow>
          if oid = 0 then ((400, Invalid_request Order_id_required), db)
          else (let hit = (\<lambda>r. res_order_id r = oid \<and> res_status r = ACTIVE
                                \<and> (reservation_ids = [] \<or> reservation_id r \<in> set reservation_ids))
                in ((200, Confirmed_body oid (length (filter hit (reservations db)))),
                    db\<lparr>reservations := map (\<lambda>r. if hit r then r\<lparr>res_status := CONFIRMED\<rparr> else r)
                                           (reservations db)\<rparr>)))"

text \<open>
  \<^verbatim>\<open>POST /v1/inventory/release\<close>. The first statement marks the ACTIVE reservations of the
  order RELEASED; the second selects the reservations of the order whose status is RELEASED;
  the loop releases the stock of each selected reservation and logs a movement.
\<close>

definition release_one :: "int \<Rightarrow> inventory_db \<Rightarrow> reservation \<Rightarrow> inventory_db" where
  "release_one oid db r =
     insert_movement (release_stock db (res_product_id r) (res_warehouse r) (res_quantity r))
       (res_product_id r) (sku_or_null (res_sku r)) (res_warehouse r) RELEASE (res_quantity r)
       oid Released_for_Order"

definition release :: "int option \<Rightarrow> inventory_db \<Rightarrow> engine_response \<times> inventory_db" where
  "release order_id db =
     (case order_id of
        None \<Rightarrow> ((400, Invalid_request Order_id_required), db)
      | Some oid \<Rightarrow>
          if oid = 0 then ((400, Invalid_request Order_id_required), db)
          else (let hit = (\<lambda>r. res_order_id r = oid \<and> res_status r = ACTIVE);
                    affectedRows = length (filter hit (reservations db));
                    db1 = db\<lparr>reservations :=
                               map (\<lambda>r. if hit r then r\<lparr>res_status := RELEASED\<rparr> else r)
                                 (reservations db)\<rparr>;
                    released = filter (\<lambda>r. res_order_id r = oid \<and> res_status r = RELEASED)
                                 (reservations db1)
                in ((200, Released_body oid affectedRows), foldl (release_one oid) db1 released)))"

text \<open>\<^verbatim>\<open>POST /v1/inventory/ship\<close>: the loop over the items, then the handler.\<close>

definition ship_stock :: "inventory_db \<Rightarrow> int \<Rightarrow> string \<Rightarrow> int \<Rightarrow> inventory_db" where
  "ship_stock db pid wh q =
     db\<lparr>inventory := map (\<lambda>r. if inv_product_id r = pid \<and> inv_warehouse r = wh
                               then r\<lparr>on_hand := max (on_hand r - q) 0,
                                      reserved := max (reserved r - q) 0\<rparr>
                               else r)
                        (inventory db)\<rparr>"

fun ship_items :: "int \<Rightarrow> ship_item list \<Rightarrow> inventory_db \<Rightarrow> inventory_db step" where
  "ship_items oid [] db = Continue db"
| "ship_items oid (item # rest) db =
     (if truthy_int (ship_product_id item) \<and> truthy_int (ship_qty item)
         \<and> truthy_str (ship_warehouse item)
      then (case (ship_product_id item, ship_qty item, ship_warehouse item) of
              (Some pid, Some q, Some wh) \<Rightarrow>
                ship_items oid rest
                  (insert_movement (ship_stock db pid wh q) pid (sku_or_null (ship_sku item)) wh
                     SHIP q oid Shipped_for_Order)
            | _ \<Rightarrow> Throw Invalid_ship_item)
      else Throw Invalid_ship_item)"

definition ship :: "int option \<Rightarrow> ship_item list \<Rightarrow> inventory_db \<Rightarrow> engine_response \<times> inventory_db" where
  "ship order_id its db =
     (if its = [] then ((400, Invalid_request Items_required), db)
      else (case order_id of
              None \<Rightarrow> ((400, Invalid_request Order_id_required), db)
            | Some oid \<Rightarrow>
                if oid = 0 then ((400, Invalid_request Order_id_required), db)
                else (case ship_items oid its db of
                        Continue db' \<Rightarrow> ((200, Shipped_body oid), db')
                      | Throw e \<Rightarrow> ((400, Error_body e (Some oid)), db)
                      | Return_response r \<Rightarrow> (r, db))))"

text \<open>\<^verbatim>\<open>POST /v1/inventory/reaper/expired\<close>; \<open>now\<close> is the clock of the database.\<close>

definition reap_one :: "inventory_db \<Rightarrow> reservation \<Rightarrow> inventory_db" where
  "reap_one db r =
     insert_movement (release_stock db (res_product_id r) (res_warehouse r) (res_quantity r))
       (res_product_id r) (sku_or_null (res_sku r)) (res_warehouse r) RELEASE (res_quantity r)
       (res_order_id r) Expired_auto_released"

definition reaper :: "int \<Rightarrow> inventory_db \<Rightarrow> engine_response \<times> inventory_db" where
  "reaper now db =
     (let expiredReservations =
            filter (\<lambda>r. res_status r = ACTIVE \<and> expires_at r < now) (reservations db)
      in if expiredReservations = [] then ((200, Processed_body 0 []), db)
         else (let reservationIds = map reservation_id expiredReservations;
                   db1 = db\<lparr>reservations :=
                              map (\<lambda>r. if reservation_id r \<in> set reservationIds
                                        then r\<lparr>res_status := EXPIRED\<rparr> else r)
                                (reservations db)\<rparr>
               in ((200, Processed_body (length expiredReservations) reservationIds),
                   foldl reap_one db1 expiredReservations)))"

section \<open>Order service: data\<close>

text \<open>
  An HTTP answer as the caller's client receives it: a status with the data of the body, or no
  answer at all (connection refused, time-out). \<^verbatim>\<open>axios\<close> resolves the promise for a status from
  200 to 299 and rejects it otherwise.
\<close>

datatype 'a answer = Answer nat 'a | No_answer

definition resolves :: "nat \<Rightarrow> bool" where
  "resolves st = (200 \<le> st \<and> st < 300)"

record order_item_in =
  productId :: int
  in_quantity :: int
  in_sku :: "string option"

record order_data =
  od_userId :: int
  od_items :: "order_item_in list"
  od_idempotencyKey :: "string option"
  od_paymentMethod :: "string option"

record order_item =
  oi_product_id :: int
  oi_quantity :: int
  unit_price :: rat
  tax_rate :: rat
  oi_sku :: "string option"
  oi_product_name :: "string option"

record order_row =
  order_id :: int
  customer_id :: int
  order_total :: rat
  order_status :: string
  payment_status :: string
  totals_signature :: string
  payment_id :: "string option"
  order_items :: "order_item list"

record orders_db =
  orders :: "order_row list"
  next_order_id :: int

record product_data =
  pd_sku :: "string option"
  pd_SKU :: "string option"
  pd_name :: "string option"
  pd_productName :: "string option"
  pd_product_name :: "string option"

record payment_data =
  pay_status :: "string option"
  pay_payment_id :: "string option"
  pay_paymentId :: "string option"
  pay_id :: "string option"

text \<open>
  The requests the saga sends. A reserve call is the header object given to \<^verbatim>\<open>axios.post\<close> and
  the payload \<^verbatim>\<open>{order_id, items: [{product_id, qty, sku}]}\<close>. The URLs are left out. The
  idempotency key of a payment call is the client's key or, without one, \<^verbatim>\<open>order-<id>\<close>.
\<close>

record reserve_call =
  rc_headers :: "(string \<times> string) list"
  rc_order_id :: int
  rc_items :: "reserve_item list"

datatype payment_key = Client_key string | Order_derived_key int

record payment_call =
  pc_idempotency_key :: payment_key
  pc_orderId :: int
  pc_amount :: rat
  pc_method :: string

record release_call =
  rl_headers :: "(string \<times> string) list"
  rl_order_id :: int
  rl_items :: "(int \<times> int) list"

datatype call =
    Catalog_prices "int list"
  | Catalog_details int
  | Inventory_reserve reserve_call
  | Payment_charge payment_call
  | Inventory_release release_call

record config =
  CATALOG_SERVICE_URL :: "string option"
  INVENTORY_SERVICE_URL :: "string option"
  PAYMENT_SERVICE_URL :: "string option"

text \<open>The other services, as the answers they give to the saga's calls.\<close>

record services =
  catalog_prices :: "int list \<Rightarrow> (int \<times> rat) list option answer"
  catalog_details :: "int \<Rightarrow> product_data option answer"
  inventory_reserve :: "reserve_call \<Rightarrow> engine_body answer"
  payment_charge :: "payment_call \<Rightarrow> payment_data answer"
  inventory_release :: "release_call \<Rightarrow> engine_body answer"

datatype pricing_error =
    Catalog_unreachable
  | Catalog_error_response nat
  | Catalog_bad_response
  | Price_not_found int
  | SKU_not_found int
  | Product_name_not_found int

datatype step_error =
    Inventory_url_not_set
  | Inventory_service_error nat
  | Inventory_unreachable
  | Payment_url_not_set
  | Payment_failed_with_status string
  | Payment_service_error nat
  | Payment_unreachable
  | Payment_id_not_returned
  | Order_to_update_not_found

datatype saga_error =
    Catalog_url_not_set
  | Pricing_verification_failed pricing_error
  | Order_processing_failed step_error

section \<open>Order service: the saga\<close>

text \<open>
  \<^verbatim>\<open>createOrderSaga\<close>, step 1B of the pre-saga: the details of one product. A failed or
  unexpected answer gives nulls.
\<close>

definition fetch_product_details :: "services \<Rightarrow> int \<Rightarrow> string option \<times> string option" where
  "fetch_product_details svc pid =
     (case catalog_details svc pid of
        Answer st (Some productData) \<Rightarrow>
          if st = 200
          then (or_else (pd_sku productData) (or_else (pd_SKU productData) None),
                or_else (pd_name productData)
                  (or_else (pd_productName productData)
                     (or_else (pd_product_name productData) None)))
          else (None, None)
      | Answer st None \<Rightarrow> (None, None)
      | No_answer \<Rightarrow> (None, None))"

text \<open>The \<^verbatim>\<open>map\<close> over the requested items that builds \<^verbatim>\<open>pricedItems\<close>; it throws at the first item
  without a price, a SKU or a name.\<close>

fun price_item_list ::
  "services \<Rightarrow> (int \<rightharpoonup> rat) \<Rightarrow> order_item_in list \<Rightarrow> pricing_error + priced_item list" where
  "price_item_list svc priceMap [] = Inr []"
| "price_item_list svc priceMap (item # rest) =
     (case priceMap (productId item) of
        None \<Rightarrow> Inl (Price_not_found (productId item))
      | Some p \<Rightarrow>
          (case fetch_product_details svc (productId item) of
             (details_sku, details_name) \<Rightarrow>
               (case or_else (in_sku item) (or_else details_sku None) of
                  None \<Rightarrow> Inl (SKU_not_found (productId item))
                | Some sku' \<Rightarrow>
                    if sku' = [] then Inl (SKU_not_found (productId item))
                    else (case or_else details_name None of
                            None \<Rightarrow> Inl (Product_name_not_found (productId item))
                          | Some name' \<Rightarrow>
                              if name' = [] then Inl (Product_name_not_found (productId item))
                              else (case price_item_list svc priceMap rest of
                                      Inl e \<Rightarrow> Inl e
                                    | Inr priced \<Rightarrow>
                                        Inr (\<lparr>product_id = productId item,
                                              quantity = in_quantity item, price = p,
                                              sku = sku', product_name = name'\<rparr> # priced))))))"

text \<open>The pre-saga: prices in one call, details per product, then the priced items. The
  result comes with the calls made.\<close>

definition price_items :: "services \<Rightarrow> order_data \<Rightarrow> (pricing_error + priced_item list) \<times> call list" where
  "price_items svc orderData =
     (let productIds = map productId (od_items orderData)
      in case catalog_prices svc productIds of
           No_answer \<Rightarrow> (Inl Catalog_unreachable, [Catalog_prices productIds])
         | Answer st d \<Rightarrow>
             if \<not> resolves st then (Inl (Catalog_error_response st), [Catalog_prices productIds])
             else (case d of
                     None \<Rightarrow> (Inl Catalog_bad_response, [Catalog_prices productIds])
                   | Some prices \<Rightarrow>
                       if st \<noteq> 200 then (Inl Catalog_bad_response, [Catalog_prices productIds])
                       else (price_item_list svc (map_of prices) (od_items orderData),
                             Catalog_prices productIds # map Catalog_details productIds)))"

text \<open>
  Modelled from the spec: the default of the column \<^verbatim>\<open>payment_status\<close> for a new order (the
  Prisma schema is not part of the sources; the saga does not set the column on creation).
\<close>

definition DEFAULT_PAYMENT_STATUS :: string where
  "DEFAULT_PAYMENT_STATUS = ''PENDING''"

text \<open>\<^verbatim>\<open>prisma.Order.create\<close> of step 2, with the items; the id is the next of the table.\<close>

definition create_order ::
  "orders_db \<Rightarrow> order_data \<Rightarrow> priced_item list \<Rightarrow> rat \<Rightarrow> string \<Rightarrow> rat \<Rightarrow> order_row \<times> orders_db" where
  "create_order db orderData pricedItems finalTotalAmount totalsSignature taxRate' =
     (let order =
            \<lparr>order_id = next_order_id db,
             customer_id = od_userId orderData,
             order_total = finalTotalAmount,
             order_status = ''PENDING'',
             payment_status = DEFAULT_PAYMENT_STATUS,
             totals_signature = totalsSignature,
             payment_id = None,
             order_items =
               map (\<lambda>item. \<lparr>oi_product_id = product_id item, oi_quantity = quantity item,
                             unit_price = price item, tax_rate = taxRate',
                             oi_sku = or_else (Some (sku item)) None,
                             oi_product_name = or_else (Some (product_name item)) None\<rparr>)
                 pricedItems\<rparr>
      in (order, db\<lparr>orders := orders db @ [order], next_order_id := next_order_id db + 1\<rparr>))"

text \<open>\<^verbatim>\<open>prisma.Order.update({where: {order_id}, data})\<close>: the updated row, or nothing when no row
  has the id (Prisma then throws).\<close>

definition update_order ::
  "orders_db \<Rightarrow> int \<Rightarrow> (order_row \<Rightarrow> order_row) \<Rightarrow> (order_row \<times> orders_db) option" where
  "update_order db oid f =
     (case find (\<lambda>row. order_id row = oid) (orders db) of
        None \<Rightarrow> None
      | Some row \<Rightarrow>
          Some (f row, db\<lparr>orders := map (\<lambda>row. if order_id row = oid then f row else row) (orders db)\<rparr>))"

text \<open>Step 3: the reserve request and its outcome. Every resolved answer sets
  \<^verbatim>\<open>inventoryReserved = true\<close>; the data of the answer is only logged.\<close>

definition reserve_call_of :: "order_row \<Rightarrow> priced_item list \<Rightarrow> reserve_call" where
  "reserve_call_of order pricedItems =
     \<lparr>rc_headers = [(''Content-Type'', ''application/json'')],
      rc_order_id = order_id order,
      rc_items = map (\<lambda>item. \<lparr>item_sku = (if sku item \<noteq> [] then Some (sku item) else None),
                               item_product_id = Some (product_id item),
                               item_qty = Some (quantity item)\<rparr>) pricedItems\<rparr>"

definition reserve_step ::
  "config \<Rightarrow> services \<Rightarrow> order_row \<Rightarrow> priced_item list \<Rightarrow> (step_error + unit) \<times> call list" where
  "reserve_step cfg svc order pricedItems =
     (if \<not> truthy_str (INVENTORY_SERVICE_URL cfg) then (Inl Inventory_url_not_set, [])
      else (let inventoryPayload = reserve_call_of order pricedItems
            in case inventory_reserve svc inventoryPayload of
                 No_answer \<Rightarrow> (Inl Inventory_unreachable, [Inventory_reserve inventoryPayload])
               | Answer st d \<Rightarrow>
                   if resolves st then (Inr (), [Inventory_reserve inventoryPayload])
                   else (Inl (Inventory_service_error st), [Inventory_reserve inventoryPayload])))"

text \<open>Step 4 and the check at the start of step 5: the charge, the status of the answer, the
  payment id.\<close>

definition payment_call_of :: "order_data \<Rightarrow> order_row \<Rightarrow> payment_call" where
  "payment_call_of orderData order =
     \<lparr>pc_idempotency_key =
        (case od_idempotencyKey orderData of
           None \<Rightarrow> Order_derived_key (order_id order)
         | Some k \<Rightarrow> if k = [] then Order_derived_key (order_id order) else Client_key k),
      pc_orderId = order_id order,
      pc_amount = order_total order,
      pc_method =
        (case od_paymentMethod orderData of
           None \<Rightarrow> ''DEBIT CARD''
         | Some m \<Rightarrow> if m = [] then ''DEBIT CARD'' else m)\<rparr>"

definition payment_step ::
  "config \<Rightarrow> services \<Rightarrow> order_data \<Rightarrow> order_row \<Rightarrow> (step_error + string) \<times> call list" where
  "payment_step cfg svc orderData order =
     (if \<not> truthy_str (PAYMENT_SERVICE_URL cfg) then (Inl Payment_url_not_set, [])
      else (let paymentPayload = payment_call_of orderData order
            in case payment_charge svc paymentPayload of
                 No_answer \<Rightarrow> (Inl Payment_unreachable, [Payment_charge paymentPayload])
               | Answer st d \<Rightarrow>
                   if \<not> resolves st
                   then (Inl (Payment_service_error st), [Payment_charge paymentPayload])
                   else (case pay_status d of
                           Some paymentStatus \<Rightarrow>
                             if paymentStatus \<noteq> [] \<and> paymentStatus \<noteq> ''SUCCESS''
                             then (Inl (Payment_failed_with_status paymentStatus),
                                   [Payment_charge paymentPayload])
                             else (case or_else (pay_payment_id d)
                                          (or_else (pay_paymentId d) (or_else (pay_id d) None)) of
                                     Some paymentId \<Rightarrow>
                                       (Inr paymentId, [Payment_charge paymentPayload])
                                   | None \<Rightarrow>
                                       (Inl Payment_id_not_returned,
                                        [Payment_charge paymentPayload]))
                         | None \<Rightarrow>
                             (case or_else (pay_payment_id d)
                                     (or_else (pay_paymentId d) (or_else (pay_id d) None)) of
                                Some paymentId \<Rightarrow> (Inr paymentId, [Payment_charge paymentPayload])
                              | None \<Rightarrow>
                                  (Inl Payment_id_not_returned, [Payment_charge paymentPayload])))))"

text \<open>\<^verbatim>\<open>compensateOrder(order, inventoryReserved, originalError)\<close>. A failure of the release call
  is logged and goes no further.\<close>

definition compensateOrder ::
  "config \<Rightarrow> services \<Rightarrow> orders_db \<Rightarrow> order_row \<Rightarrow> bool \<Rightarrow> orders_db \<times> call list" where
  "compensateOrder cfg svc db order inventoryReserved =
     (case update_order db (order_id order) (\<lambda>row. row\<lparr>order_status := ''CANCELLED''\<rparr>) of
        None \<Rightarrow> (db, [])
      | Some (cancelled, db1) \<Rightarrow>
          if inventoryReserved \<and> order_items cancelled \<noteq> []
               \<and> truthy_str (INVENTORY_SERVICE_URL cfg)
          then (db1, [Inventory_release
                        \<lparr>rl_headers = [(''Content-Type'', ''application/json'')],
                         rl_order_id = order_id order,
                         rl_items = map (\<lambda>item. (oi_product_id item, oi_quantity item))
                                      (order_items cancelled)\<rparr>])
          else (db1, []))"

text \<open>
  Steps 3 to 5 inside the \<^verbatim>\<open>try\<close>, for the order of step 2: the result, whether the inventory
  counts as reserved, the database and the calls.
\<close>

definition saga_steps ::
  "config \<Rightarrow> services \<Rightarrow> order_data \<Rightarrow> order_row \<Rightarrow> priced_item list \<Rightarrow> orders_db
     \<Rightarrow> (step_error + order_row) \<times> bool \<times> orders_db \<times> call list" where
  "saga_steps cfg svc orderData order pricedItems db =
     (case reserve_step cfg svc order pricedItems of
        (Inl e, calls3) \<Rightarrow> (Inl e, False, db, calls3)
      | (Inr u, calls3) \<Rightarrow>
          (case payment_step cfg svc orderData order of
             (Inl e, calls4) \<Rightarrow> (Inl e, True, db, calls3 @ calls4)
           | (Inr paymentId, calls4) \<Rightarrow>
               (case update_order db (order_id order)
                       (\<lambda>row. row\<lparr>payment_status := ''SUCCESS'', payment_id := Some paymentId\<rparr>) of
                  None \<Rightarrow> (Inl Order_to_update_not_found, True, db, calls3 @ calls4)
                | Some (updated, db') \<Rightarrow> (Inr updated, True, db', calls3 @ calls4))))"

text \<open>
  The pre-saga and step 2 of \<^verbatim>\<open>createOrderSaga\<close>: pricing, shipping, totals, signature, and
  the order persisted with status PENDING. The hash function of the signature is a parameter.
\<close>

definition start_order ::
  "config \<Rightarrow> services \<Rightarrow> (totals \<Rightarrow> priced_item list \<Rightarrow> string) \<Rightarrow> order_data \<Rightarrow> orders_db
     \<Rightarrow> (saga_error + order_row \<times> priced_item list \<times> totals \<times> orders_db) \<times> call list" where
  "start_order cfg svc generateTotalsSignature orderData db =
     (if \<not> truthy_str (CATALOG_SERVICE_URL cfg) then (Inl Catalog_url_not_set, [])
      else (case price_items svc orderData of
              (Inl e, calls1) \<Rightarrow> (Inl (Pricing_verification_failed e), calls1)
            | (Inr pricedItems, calls1) \<Rightarrow>
                (let taxRate' = 5 / 100;
                     shippingCost' = calculateShippingCost pricedItems;
                     orderTotals = calculateOrderTotals pricedItems (Some taxRate') (Some shippingCost');
                     finalTotalAmount = total orderTotals;
                     totalsSignature = generateTotalsSignature orderTotals pricedItems
                 in case create_order db orderData pricedItems finalTotalAmount totalsSignature
                           taxRate' of
                      (order, db1) \<Rightarrow> (Inr (order, pricedItems, orderTotals, db1), calls1))))"

text \<open>\<^verbatim>\<open>createOrderSaga(orderData)\<close>: the order with its totals or the error thrown, the database
  of orders, and the calls made to the other services, in order.\<close>

definition createOrderSaga ::
  "config \<Rightarrow> services \<Rightarrow> (totals \<Rightarrow> priced_item list \<Rightarrow> string) \<Rightarrow> order_data \<Rightarrow> orders_db
     \<Rightarrow> (saga_error + order_row \<times> totals) \<times> orders_db \<times> call list" where
  "createOrderSaga cfg svc generateTotalsSignature orderData db =
     (case start_order cfg svc generateTotalsSignature orderData db of
        (Inl e, calls1) \<Rightarrow> (Inl e, db, calls1)
      | (Inr (order, pricedItems, orderTotals, db1), calls1) \<Rightarrow>
          (case saga_steps cfg svc orderData order pricedItems db1 of
             (Inr updated, inventoryReserved, db2, calls2) \<Rightarrow>
               (Inr (updated, orderTotals), db2, calls1 @ calls2)
           | (Inl e, inventoryReserved, db2, calls2) \<Rightarrow>
               (case compensateOrder cfg svc db2 order inventoryReserved of
                  (db3, calls3) \<Rightarrow>
                    (Inl (Order_processing_failed e), db3, calls1 @ calls2 @ calls3))))"

section \<open>Order service: idempotency middleware and controller\<close>












text \<open>
  The inventory service behind the saga's reserve call: Node delivers the header names in
  lower case, Express parses the JSON payload into the body (which has no field
  \<^verbatim>\<open>idempotency_key\<close>), and the handler of \<^verbatim>\<open>POST /v1/inventory/reserve\<close> answers.
\<close>

definition lower_char :: "char \<Rightarrow> char" where
  "lower_char c =
     (let n = (of_char c :: nat) in if 65 \<le> n \<and> n \<le> 90 then char_of (n + 32) else c)"

definition deliver_reserve :: "reserve_call \<Rightarrow> reserve_request" where
  "deliver_reserve c =
     \<lparr>headers = map (\<lambda>(name, v). (map lower_char name, v)) (rc_headers c),
      body_items = rc_items c,
      body_order_id = Some (rc_order_id c),
      body_idempotency_key = None\<rparr>"

definition inventory_engine :: "int \<Rightarrow> inventory_db \<Rightarrow> reserve_call \<Rightarrow> engine_body answer" where
  "inventory_engine now db c =
     (case fst (reserve now (deliver_reserve c) db) of (st, body) \<Rightarrow> Answer st body)"

section \<open>Inventory service: the invariant\<close>

text \<open>
  The invariant of an inventory row, \<open>on_hand \<ge> reserved \<ge> 0\<close>, and the constraint of the data
  model on reservations (a positive quantity), which the reserve handler establishes for
  every row it inserts.
\<close>

definition row_ok :: "inventory_row \<Rightarrow> bool" where
  "row_ok r = (0 \<le> reserved r \<and> reserved r \<le> on_hand r)"

definition stock_invariant :: "inventory_db \<Rightarrow> bool" where
  "stock_invariant db = list_all row_ok (inventory db)"

definition quantities_positive :: "inventory_db \<Rightarrow> bool" where
  "quantities_positive db = list_all (\<lambda>r. 0 < res_quantity r) (reservations db)"

definition db_ok :: "inventory_db \<Rightarrow> bool" where
  "db_ok db = (stock_invariant db \<and> quantities_positive db)"

section \<open>Example inputs\<close>

definition reserve_req :: "string \<Rightarrow> int \<Rightarrow> (int \<times> int) list \<Rightarrow> reserve_request" where
  "reserve_req k oid its =
     \<lparr>headers = [(''idempotency-key'', k)],
      body_items = map (\<lambda>(p, q). \<lparr>item_sku = None, item_product_id = Some p, item_qty = Some q\<rparr>) its,
      body_order_id = Some oid, body_idempotency_key = None\<rparr>"

definition stock_db :: inventory_db where
  "stock_db =
     \<lparr>inventory =
        [\<lparr>inventory_id = 1, inv_product_id = 1, inv_warehouse = ''WH1'', on_hand = 10, reserved = 0\<rparr>,
         \<lparr>inventory_id = 2, inv_product_id = 2, inv_warehouse = ''WH1'', on_hand = 5, reserved = 0\<rparr>],
      reservations = [], movements = [], next_reservation_id = 1\<rparr>"

definition two_orders_db :: inventory_db where
  "two_orders_db =
     snd (reserve 0 (reserve_req ''k2'' 2 [(1, 3)])
            (snd (reserve 0 (reserve_req ''k1'' 1 [(1, 2)]) stock_db)))"

definition released_once_db :: inventory_db where
  "released_once_db = snd (release (Some 1) two_orders_db)"

definition released_twice_db :: inventory_db where
  "released_twice_db = snd (release (Some 1) released_once_db)"

definition happy_items :: "priced_item list" where
  "happy_items =
     [\<lparr>product_id = 1, quantity = 2, price = 10, sku = ''SKU-1'', product_name = ''P1''\<rparr>,
      \<lparr>product_id = 2, quantity = 1, price = 10, sku = ''SKU-2'', product_name = ''P2''\<rparr>]"

definition env_config :: config where
  "env_config = \<lparr>CATALOG_SERVICE_URL = Some ''http://catalog:8081/v1'',
                  INVENTORY_SERVICE_URL = Some ''http://inventory:8082'',
                  PAYMENT_SERVICE_URL = Some ''http://payment:8083''\<rparr>"

definition catalog_prices_ok :: "int list \<Rightarrow> (int \<times> rat) list option answer" where
  "catalog_prices_ok ids = Answer 200 (Some [(1, 10), (2, 10)])"

definition catalog_details_ok :: "int \<Rightarrow> product_data option answer" where
  "catalog_details_ok pid =
     Answer 200 (Some \<lparr>pd_sku = Some (if pid = 1 then ''SKU-1'' else ''SKU-2''), pd_SKU = None,
                       pd_name = Some (if pid = 1 then ''P1'' else ''P2''), pd_productName = None,
                       pd_product_name = None\<rparr>)"

definition payment_ok :: "payment_call \<Rightarrow> payment_data answer" where
  "payment_ok c = Answer 200 \<lparr>pay_status = Some ''SUCCESS'', pay_payment_id = Some ''pay-1'',
                              pay_paymentId = None, pay_id = None\<rparr>"

definition release_ok :: "release_call \<Rightarrow> engine_body answer" where
  "release_ok c = Answer 200 (Released_body (rl_order_id c) 0)"

definition services_with_engine :: services where
  "services_with_engine =
     \<lparr>catalog_prices = catalog_prices_ok, catalog_details = catalog_details_ok,
      inventory_reserve = inventory_engine 0 stock_db, payment_charge = payment_ok,
      inventory_release = release_ok\<rparr>"

definition services_partial :: services where
  "services_partial =
     \<lparr>catalog_prices = catalog_prices_ok, catalog_details = catalog_details_ok,
      inventory_reserve =
        (\<lambda>c. Answer 200 (Reserve_body PARTIAL (rc_order_id c) SPLIT
                            [Reserved_item (Some ''SKU-2'') 2 ''WH1'' 1 1 1,
                             Partial_item (Some ''SKU-1'') 1 None 2 0] 900000)),
      payment_charge = payment_ok, inventory_release = release_ok\<rparr>"

definition happy_order_data :: order_data where
  "happy_order_data =
     \<lparr>od_userId = 1,
      od_items = [\<lparr>productId = 1, in_quantity = 2, in_sku = None\<rparr>,
                  \<lparr>productId = 2, in_quantity = 1, in_sku = None\<rparr>],
      od_idempotencyKey = Some ''k1'', od_paymentMethod = None\<rparr>"

definition signature_stub :: "totals \<Rightarrow> priced_item list \<Rightarrow> string" where
  "signature_stub t its = ''sig''"

definition no_orders :: orders_db where
  "no_orders = \<lparr>orders = [], next_order_id = 1\<rparr>"


definition happy_totals :: totals where
  "happy_totals = \<lparr>subtotal = 30, taxRate = 5 / 100, taxAmount = 3 / 2, shippingCost = 16, total = 95 / 2\<rparr>"

definition happy_order :: order_row where
  "happy_order =
     \<lparr>order_id = 1, customer_id = 1, order_total = 95 / 2, order_status = ''PENDING'',
      payment_status = ''PENDING'', totals_signature = ''sig'', payment_id = None,
      order_items =
        [\<lparr>oi_product_id = 1, oi_quantity = 2, unit_price = 10, tax_rate = 5 / 100,
          oi_sku = Some ''SKU-1'', oi_product_name = Some ''P1''\<rparr>,
         \<lparr>oi_product_id = 2, oi_quantity = 1, unit_price = 10, tax_rate = 5 / 100,
          oi_sku = Some ''SKU-2'', oi_product_name = Some ''P2''\<rparr>]\<rparr>"

definition happy_catalog_calls :: "call list" where
  "happy_catalog_calls = [Catalog_prices [1, 2], Catalog_details 1, Catalog_details 2]"

definition happy_paid_order :: order_row where
  "happy_paid_order = happy_order\<lparr>payment_status := ''SUCCESS'', payment_id := Some ''pay-1''\<rparr>"

definition happy_calls :: "call list" where
  "happy_calls =
     happy_catalog_calls @
     [Inventory_reserve (reserve_call_of happy_order happy_items),
      Payment_charge (payment_call_of happy_order_data happy_order)]"





section \<open>Rounding and totals: results\<close>

lemma Math_round_tie: "Math_round (25 / 2) = 13"
  by (simp add: Math_round_def)

text \<open>
  C3. The claim: \<open>bankersRound(value, 2)\<close> rounds half to even, in particular
  \<open>bankersRound(0.125, 2) = 0.12\<close>. On the code the tie 12.5 is first rounded up to 13 by
  \<^verbatim>\<open>Math.round\<close> and then, 13 being odd, moved one further up to 14: the result is 0.14,
  which is neither the even neighbour 0.12 nor any nearest multiple of 0.01.
\<close>

theorem bankersRound_tie_odd_up:
  "bankersRound (125 / 1000) 2 = 14 / 100 \<and> bankersRound (125 / 1000) 2 \<noteq> 12 / 100
   \<and> half_even_2 (125 / 1000) = 12 / 100"
  by code_simp

lemma bankersRound_135: "bankersRound (135 / 1000) 2 = 14 / 100"
  by code_simp

lemma foldl_add_sum_list:
  fixes f :: "'a \<Rightarrow> 'b::comm_monoid_add"
  shows "foldl (\<lambda>sum item. sum + f item) a xs = a + sum_list (map f xs)"
  by (induction xs arbitrary: a) (simp_all add: add.assoc)

lemma calculateOrderTotals_formulas:
  "calculateOrderTotals its (Some r) (Some s) =
     (let st = (\<Sum>item\<leftarrow>its. price item * of_int (quantity item))
      in \<lparr> subtotal = bankersRound st 2, taxRate = r, taxAmount = bankersRound (st * r) 2,
           shippingCost = bankersRound s 2, total = bankersRound (st + st * r + s) 2 \<rparr>)"
  by (simp add: calculateOrderTotals_def foldl_add_sum_list Let_def)

lemma calculateShippingCost_formula:
  "calculateShippingCost its = bankersRound (10 + of_int (\<Sum>item\<leftarrow>its. quantity item) * 2) 2"
  by (simp add: calculateShippingCost_def foldl_add_sum_list Let_def)

lemma happy_path_totals:
  "calculateShippingCost happy_items = 16 \<and>
   calculateOrderTotals happy_items (Some (5 / 100)) (Some (calculateShippingCost happy_items))
     = \<lparr>subtotal = 30, taxRate = 5 / 100, taxAmount = 3 / 2, shippingCost = 16, total = 95 / 2\<rparr>"
  by code_simp

text \<open>
  C6. The claim: the calculator returns the subtotal, the tax amount and the total, each
  rounded to 2 decimals. The formulas, the default rate, the shipping formula and the total
  47.50 of the happy path hold (lemmas above). The rounding does not: for one unit at price
  2.50, default tax rate and shipping 12.00, the exact tax is 0.125 and the exact total
  14.625; the code returns 0.14 and 14.64, where rounding to 2 decimals gives 0.12 and 14.62
  (half to even) and in no convention more than 0.13 and 14.63.
\<close>

theorem calculateOrderTotals_tie_not_rounded:
  "calculateOrderTotals
      [\<lparr>product_id = 1, quantity = 1, price = 25 / 10, sku = ''SKU-1'', product_name = ''P1''\<rparr>]
      None (Some 12)
     = \<lparr>subtotal = 25 / 10, taxRate = 5 / 100, taxAmount = 14 / 100, shippingCost = 12,
          total = 1464 / 100\<rparr>
   \<and> half_even_2 (25 / 10 * (5 / 100)) = 12 / 100
   \<and> half_even_2 (25 / 10 + 25 / 10 * (5 / 100) + 12) = 1462 / 100"
  by code_simp


section \<open>Inventory service: results\<close>

subsection \<open>The invariant is preserved\<close>

lemma db_ok_release_stock: "db_ok db \<Longrightarrow> 0 \<le> q \<Longrightarrow> db_ok (release_stock db pid wh q)"
  by (auto simp: db_ok_def stock_invariant_def quantities_positive_def release_stock_def
      row_ok_def list_all_iff)

lemma db_ok_ship_stock: "db_ok db \<Longrightarrow> db_ok (ship_stock db pid wh q)"
  by (auto simp: db_ok_def stock_invariant_def quantities_positive_def ship_stock_def
      row_ok_def list_all_iff)

lemma db_ok_insert_movement: "db_ok (insert_movement db pid s wh ty q oid note) = db_ok db"
  by (simp add: db_ok_def stock_invariant_def quantities_positive_def insert_movement_def)

lemma reservations_insert_movement [simp]:
  "reservations (insert_movement db pid s wh ty q oid note) = reservations db"
  by (simp add: insert_movement_def)

lemma reservations_release_stock [simp]: "reservations (release_stock db pid wh q) = reservations db"
  by (simp add: release_stock_def)

lemma db_ok_update_reserve: "db_ok db \<Longrightarrow> 0 \<le> q \<Longrightarrow> db_ok (snd (update_reserve db i q))"
  by (auto simp: db_ok_def stock_invariant_def quantities_positive_def update_reserve_def
      row_ok_def list_all_iff available_def Let_def)

lemma db_ok_insert_reservation:
  "db_ok db \<Longrightarrow> 0 < q \<Longrightarrow> insert_reservation db oid pid s wh q k e = Some (rid, db') \<Longrightarrow> db_ok db'"
  by (auto simp: db_ok_def stock_invariant_def quantities_positive_def insert_reservation_def
      split: if_splits)

lemma db_ok_release_one:
  "db_ok db \<Longrightarrow> 0 \<le> res_quantity r \<Longrightarrow> db_ok (release_one oid db r)"
  by (simp add: release_one_def db_ok_insert_movement db_ok_release_stock)

lemma db_ok_foldl_release_one:
  "db_ok db \<Longrightarrow> list_all (\<lambda>r. 0 \<le> res_quantity r) rs \<Longrightarrow> db_ok (foldl (release_one oid) db rs)"
  by (induction rs arbitrary: db) (simp_all add: db_ok_release_one)

lemma db_ok_reap_one:
  "db_ok db \<Longrightarrow> 0 \<le> res_quantity r \<Longrightarrow> db_ok (reap_one db r)"
  by (simp add: reap_one_def db_ok_insert_movement db_ok_release_stock)

lemma db_ok_foldl_reap_one:
  "db_ok db \<Longrightarrow> list_all (\<lambda>r. 0 \<le> res_quantity r) rs \<Longrightarrow> db_ok (foldl reap_one db rs)"
  by (induction rs arbitrary: db) (simp_all add: db_ok_reap_one)

lemma db_ok_set_status:
  "db_ok db \<Longrightarrow> db_ok (db\<lparr>reservations := map (\<lambda>r. if P r then r\<lparr>res_status := st\<rparr> else r) (reservations db)\<rparr>)"
  by (auto simp: db_ok_def stock_invariant_def quantities_positive_def list_all_iff)

lemma quantities_nonneg_filter:
  "quantities_positive db \<Longrightarrow> list_all (\<lambda>r. 0 \<le> res_quantity r) (filter P (reservations db))"
  by (auto simp: quantities_positive_def list_all_iff)

lemma db_ok_release: "db_ok db \<Longrightarrow> db_ok (snd (release oid0 db))"
proof -
  assume ok: "db_ok db"
  have "db_ok (foldl (release_one oid) db1 (filter P (reservations db1)))"
    if "db1 = db\<lparr>reservations := map (\<lambda>r. if Q r then r\<lparr>res_status := RELEASED\<rparr> else r)
                                        (reservations db)\<rparr>" for oid db1 P Q
  proof -
    have ok1: "db_ok db1" unfolding that by (rule db_ok_set_status[OF ok])
    then have "quantities_positive db1" by (simp add: db_ok_def)
    from db_ok_foldl_release_one[OF ok1 quantities_nonneg_filter[OF this]] show ?thesis .
  qed
  then show ?thesis
    using ok by (simp add: release_def Let_def split: option.splits)
qed

lemma db_ok_reaper: "db_ok db \<Longrightarrow> db_ok (snd (reaper now db))"
proof -
  assume ok: "db_ok db"
  have "db_ok (foldl reap_one db1 (filter P (reservations db)))"
    if "db1 = db\<lparr>reservations := map (\<lambda>r. if Q r then r\<lparr>res_status := EXPIRED\<rparr> else r)
                                        (reservations db)\<rparr>" for db1 P Q
  proof -
    have ok1: "db_ok db1" unfolding that by (rule db_ok_set_status[OF ok])
    from ok have "quantities_positive db" by (simp add: db_ok_def)
    from db_ok_foldl_reap_one[OF ok1 quantities_nonneg_filter[OF this]] show ?thesis .
  qed
  then show ?thesis
    using ok by (simp add: reaper_def Let_def)
qed

lemma db_ok_ship_items: "db_ok db \<Longrightarrow> ship_items oid its db = Continue db' \<Longrightarrow> db_ok db'"
proof (induction its arbitrary: db)
  case Nil
  then show ?case by simp
next
  case (Cons item its)
  from Cons.prems(2) obtain pid q wh where
    f: "ship_product_id item = Some pid" "ship_qty item = Some q" "ship_warehouse item = Some wh"
    and r: "ship_items oid its (insert_movement (ship_stock db pid wh q) pid
              (sku_or_null (ship_sku item)) wh SHIP q oid Shipped_for_Order) = Continue db'"
    by (auto split: if_splits option.splits)
  have "db_ok (insert_movement (ship_stock db pid wh q) pid
              (sku_or_null (ship_sku item)) wh SHIP q oid Shipped_for_Order)"
    using Cons.prems(1) by (simp add: db_ok_insert_movement db_ok_ship_stock)
  from Cons.IH[OF this r] show ?case .
qed

lemma db_ok_ship: "db_ok db \<Longrightarrow> db_ok (snd (ship oid0 its db))"
proof -
  assume ok: "db_ok db"
  have "\<And>oid. db_ok (snd (case ship_items oid its db of
                        Continue db' \<Rightarrow> ((200, Shipped_body oid), db')
                      | Throw e \<Rightarrow> ((400, Error_body e (Some oid)), db)
                      | Return_response r \<Rightarrow> (r, db)))"
    using ok db_ok_ship_items[OF ok] by (simp split: step.splits)
  then show ?thesis
    using ok by (simp add: ship_def split: option.splits)
qed


lemma db_ok_try_warehouses:
  "db_ok (ls_db st) \<Longrightarrow> 0 < q \<Longrightarrow> try_warehouses k oid s pid q e whs st = Continue (b, st')
     \<Longrightarrow> db_ok (ls_db st')"
proof (induction whs arbitrary: st)
  case Nil
  then show ?case by simp
next
  case (Cons w whs)
  show ?case
  proof (cases "available w \<ge> q")
    case False
    with Cons.prems(3) have "try_warehouses k oid s pid q e whs
        (st\<lparr>partialItems := partialItems st @
                    [Partial_item (sku_or_null s) pid (Some (inv_warehouse w)) q (available w)],
                 hasPartial := True\<rparr>) = Continue (b, st')"
      by simp
    from Cons.IH[OF _ Cons.prems(2) this] Cons.prems(1) show ?thesis by simp
  next
    case True
    obtain n db1 where u: "update_reserve (ls_db st) (inventory_id w) q = (n, db1)"
      by (cases "update_reserve (ls_db st) (inventory_id w) q")
    have ok1: "db_ok db1"
      using db_ok_update_reserve[OF Cons.prems(1), of q "inventory_id w"] Cons.prems(2) u by simp
    show ?thesis
    proof (cases "n = 0")
      case True
      with Cons.prems(3) \<open>available w \<ge> q\<close> u
      have "try_warehouses k oid s pid q e whs st = Continue (b, st')" by simp
      from Cons.IH[OF Cons.prems(1,2) this] show ?thesis .
    next
      case False
      with Cons.prems(3) \<open>available w \<ge> q\<close> u
      obtain rid db2 where
        ins: "insert_reservation db1 oid pid (sku_or_null s) (inv_warehouse w) q k e = Some (rid, db2)"
        and st': "ls_db st' = insert_movement db2 pid (sku_or_null s) (inv_warehouse w) RESERVE q
                    oid Reserved_for_Order"
        by (auto split: option.splits if_splits simp: Let_def)
      from db_ok_insert_reservation[OF ok1 Cons.prems(2) ins] st' show ?thesis
        by (simp add: db_ok_insert_movement)
    qed
  qed
qed

lemma db_ok_reserve_one:
  assumes ok: "db_ok (ls_db st)" and r: "reserve_one k oid strat tw e st item = Continue st'"
  shows "db_ok (ls_db st')"
proof -
  from r obtain q pid where q: "item_qty item = Some q" "0 < q" and pid: "item_product_id item = Some pid"
    by (auto simp: reserve_one_def split: option.splits if_splits)
  let ?whs = "select_warehouses (ls_db st) strat tw pid q"
  show ?thesis
  proof (cases "?whs = []")
    case True
    with r q pid ok show ?thesis
      by (auto simp: reserve_one_def Let_def split: if_splits)
  next
    case False
    with r q pid obtain b st1 where
      t: "try_warehouses k oid (item_sku item) pid q e ?whs st = Continue (b, st1)"
      and s: "ls_db st' = ls_db st1"
      by (auto simp: reserve_one_def Let_def split: if_splits step.splits)
    from db_ok_try_warehouses[OF ok q(2) t] s show ?thesis by simp
  qed
qed

lemma db_ok_reserve_items:
  "db_ok (ls_db st) \<Longrightarrow> reserve_items k oid strat tw e its st = Continue st' \<Longrightarrow> db_ok (ls_db st')"
proof (induction its arbitrary: st)
  case Nil
  then show ?case by simp
next
  case (Cons item its)
  from Cons.prems(2) obtain st1 where
    one: "reserve_one k oid strat tw e st item = Continue st1"
    and rest: "reserve_items k oid strat tw e its st1 = Continue st'"
    by (auto split: step.splits)
  from Cons.IH[OF db_ok_reserve_one[OF Cons.prems(1) one] rest] show ?case .
qed

lemma db_ok_reserve_transaction:
  assumes ok: "db_ok db"
  shows "db_ok (snd (reserve_transaction now its oid k db))"
proof -
  obtain strat tw where a: "allocateWarehouseStrategy db its = (strat, tw)"
    by (cases "allocateWarehouseStrategy db its")
  let ?st0 = "\<lparr>ls_db = db, reservedItems = [], partialItems = [], hasPartial = False\<rparr>"
  let ?e = "now + RESERVATION_TTL_MINUTES * 60 * 1000"
  have "db_ok (ls_db st)" if "reserve_items k oid strat tw ?e its ?st0 = Continue st" for st
    using db_ok_reserve_items[OF _ that] ok by simp
  then show ?thesis
    using ok a by (simp add: reserve_transaction_def Let_def split: step.splits)
qed

lemma db_ok_reserve: "db_ok db \<Longrightarrow> db_ok (snd (reserve now req db))"
  by (simp add: reserve_def db_ok_reserve_transaction split: option.splits)


lemma db_ok_confirm: "db_ok db \<Longrightarrow> db_ok (snd (confirm oid0 ids db))"
  by (simp add: confirm_def Let_def db_ok_set_status split: option.splits)

text \<open>
  C5. For every inventory row the invariant \<open>on_hand \<ge> reserved \<ge> 0\<close> holds after each
  operation of the engine (reserve, confirm, release, ship, reaper) when it held before, on a
  database whose reservations have positive quantities (the data model's constraint, itself
  preserved by every operation).
\<close>

theorem stock_invariant_preserved:
  assumes "stock_invariant db" and "quantities_positive db"
  shows "stock_invariant (snd (reserve now req db)) \<and> quantities_positive (snd (reserve now req db))
       \<and> stock_invariant (snd (release oid1 db)) \<and> quantities_positive (snd (release oid1 db))
       \<and> stock_invariant (snd (ship oid2 its db)) \<and> quantities_positive (snd (ship oid2 its db))
       \<and> stock_invariant (snd (reaper now' db)) \<and> quantities_positive (snd (reaper now' db))
       \<and> stock_invariant (snd (confirm oid3 ids db)) \<and> quantities_positive (snd (confirm oid3 ids db))"
proof -
  from assms have ok: "db_ok db" by (simp add: db_ok_def)
  show ?thesis
    using db_ok_reserve[OF ok, of now req] db_ok_release[OF ok, of oid1]
      db_ok_ship[OF ok, of oid2 its] db_ok_reaper[OF ok, of now'] db_ok_confirm[OF ok, of oid3 ids]
    by (simp add: db_ok_def)
qed

theorem stock_invariant_preserved_witness:
  "stock_invariant two_orders_db \<and> quantities_positive two_orders_db
   \<and> stock_invariant (snd (reserve 0 (reserve_req ''k3'' 3 [(1, 5), (2, 6)]) two_orders_db))
   \<and> stock_invariant (snd (release (Some 1) two_orders_db))
   \<and> stock_invariant (snd (ship (Some 2)
        [\<lparr>ship_sku = None, ship_product_id = Some 1, ship_qty = Some 3,
          ship_warehouse = Some ''WH1''\<rparr>] two_orders_db))
   \<and> stock_invariant (snd (reaper 900001 two_orders_db))"
proof -
  have h1: "stock_invariant two_orders_db" by code_simp
  have h2: "quantities_positive two_orders_db" by code_simp
  show ?thesis
    using h1 h2
      stock_invariant_preserved[OF h1 h2, of 0 "reserve_req ''k3'' 3 [(1, 5), (2, 6)]" "Some 1"
        "Some 2" "[\<lparr>ship_sku = None, ship_product_id = Some 1, ship_qty = Some 3,
          ship_warehouse = Some ''WH1''\<rparr>]" 900001]
    by simp
qed

subsection \<open>Reserve under a key that already has reservations\<close>





subsection \<open>A product already reserved under the key, met inside the loop\<close>

lemma reserve_one_existing_product:
  assumes "item_qty item = Some q" "0 < q" "item_product_id item = Some pid" "pid \<noteq> 0"
    and "select_warehouses (ls_db st) strategy tw pid q \<noteq> []"
    and "list_ex (\<lambda>r. idempotency_key r = k \<and> res_order_id r = oid \<and> res_product_id r = pid
                      \<and> res_status r = ACTIVE) (reservations (ls_db st))"
  shows "reserve_one k oid strategy tw e st item = Throw ReferenceError_reserved"
  using assms by (auto simp: reserve_one_def Let_def filter_empty_conv list_ex_iff)


text \<open>
  C9. The claim: a collision on (key, order, product) inside the item loop reuses the existing
  reservation and the request does not fail. On the code, a request that names product 1
  twice reserves the first item, finds its reservation at the second, and then throws
  (\<^verbatim>\<open>reserved\<close> is assigned before its declaration): the transaction is rolled back and the
  answer is 400.
\<close>

theorem reserve_repeated_product_rejected:
  "reserve 0 (reserve_req ''k1'' 1 [(1, 1), (1, 1)]) stock_db
     = ((400, Error_body ReferenceError_reserved (Some 1)), stock_db)"
  by code_simp


subsection \<open>Release twice\<close>

text \<open>
  C4. The claim: a second release of an order changes no reserved counter and appends no
  movement. On the code the second call selects the reservations of the order that are
  RELEASED, which are those the first call released, and releases their stock again: with
  orders 1 (2 units) and 2 (3 units) reserved on one row, the counter goes 5, 3, 1 and a
  second RELEASE movement is written, while the reservation of order 2 is still ACTIVE.
\<close>

theorem release_twice_not_idempotent:
  "map reserved (inventory two_orders_db) = [5, 0]
   \<and> map reserved (inventory released_once_db) = [3, 0]
   \<and> map reserved (inventory released_twice_db) = [1, 0]
   \<and> length (filter (\<lambda>m. mov_type m = RELEASE) (movements released_once_db)) = 1
   \<and> length (filter (\<lambda>m. mov_type m = RELEASE) (movements released_twice_db)) = 2
   \<and> map res_status (reservations released_twice_db) = [RELEASED, ACTIVE]
   \<and> released_twice_db \<noteq> released_once_db"
  by code_simp



section \<open>Order service: results\<close>

subsection \<open>The reserve call of the saga\<close>

lemma reserve_call_never_carries_key:
  "request_idempotency_key (deliver_reserve (reserve_call_of order pricedItems)) = None"
  by (simp add: request_idempotency_key_def deliver_reserve_def reserve_call_of_def or_else_def
      truthy_str_def lower_char_def)

lemma engine_rejects_saga_call:
  "\<exists>e. inventory_engine now db (reserve_call_of order pricedItems) = Answer 400 (Invalid_request e)"
  using reserve_call_never_carries_key[of order pricedItems]
  by (simp add: inventory_engine_def reserve_def split: option.splits)

text \<open>
  C1. The claim: the reserve call of the saga carries the client's idempotency key. On the
  code the call is sent with the single header \<^verbatim>\<open>Content-Type\<close> and the payload
  \<^verbatim>\<open>{order_id, items}\<close>; the key the client sent (\<open>k1\<close>) is in neither. The reserve handler of
  the inventory service therefore answers 400 (key required), and the saga cancels the order.
\<close>

theorem saga_reserve_call_without_key:
  "createOrderSaga env_config services_with_engine signature_stub happy_order_data no_orders
     = (Inl (Order_processing_failed (Inventory_service_error 400)),
        \<lparr>orders = [happy_order\<lparr>order_status := ''CANCELLED''\<rparr>], next_order_id = 2\<rparr>,
        happy_catalog_calls @
        [Inventory_reserve
           \<lparr>rc_headers = [(''Content-Type'', ''application/json'')], rc_order_id = 1,
            rc_items = [\<lparr>item_sku = Some ''SKU-1'', item_product_id = Some 1, item_qty = Some 2\<rparr>,
                        \<lparr>item_sku = Some ''SKU-2'', item_product_id = Some 2, item_qty = Some 1\<rparr>]\<rparr>])
   \<and> request_idempotency_key (deliver_reserve (reserve_call_of happy_order happy_items)) = None
   \<and> inventory_engine 0 stock_db (reserve_call_of happy_order happy_items)
       = Answer 400 (Invalid_request Idempotency_key_required)"
  by code_simp

subsection \<open>A reserve answer that is not RESERVED\<close>

lemma reserve_step_any_2xx:
  assumes "truthy_str (INVENTORY_SERVICE_URL cfg)"
    and "inventory_reserve svc (reserve_call_of order pricedItems) = Answer st body" and "resolves st"
  shows "fst (reserve_step cfg svc order pricedItems) = Inr ()"
  using assms by (simp add: reserve_step_def Let_def)

text \<open>
  C2. The claim: a reserve answer whose status is not RESERVED, in particular 200 with
  PARTIAL, makes the saga compensate without charging. On the code every resolved answer
  counts as a reservation: with the answer 200 PARTIAL the saga goes on to the payment call,
  the order is not cancelled and the saga returns the paid order.
\<close>

theorem saga_charges_after_partial:
  "createOrderSaga env_config services_partial signature_stub happy_order_data no_orders
     = (Inr (happy_paid_order, happy_totals), \<lparr>orders = [happy_paid_order], next_order_id = 2\<rparr>,
        happy_calls)
   \<and> order_status happy_paid_order = ''PENDING'' \<and> payment_status happy_paid_order = ''SUCCESS''
   \<and> inventory_reserve services_partial (reserve_call_of happy_order happy_items)
       = Answer 200 (Reserve_body PARTIAL 1 SPLIT
                       [Reserved_item (Some ''SKU-2'') 2 ''WH1'' 1 1 1,
                        Partial_item (Some ''SKU-1'') 1 None 2 0] 900000)"
  by code_simp

subsection \<open>The finalize step\<close>







subsection \<open>A request whose key has a record\<close>




end
